theory Spec2Isabelle
  imports Main "HOL-Library.AList"
begin

section \<open>Python values\<close>

text \<open>
  The importer handles dynamically typed values: documents decoded by \<open>json.load\<close>
  (the Trello export, a card's state file, a response body) and, on the create path of
  \<open>Card.save\<close>, a one-element tuple. One datatype holds them all. A \<open>dict\<close> is an
  association list in insertion order; JSON object keys are strings. JSON numbers are
  restricted to integers.
\<close>

datatype pyval =
    PNone
  | PBool bool
  | PInt int
  | PStr string
  | PList "pyval list"
  | PTuple "pyval list"
  | PDict "(string \<times> pyval) list"

text \<open>
  Exceptions are values. \<open>ENOENT\<close> is \<open>py.error.ENOENT\<close>, \<open>RequestException\<close> a
  transport failure raised by the HTTP library, \<open>SystemExit n\<close> what \<open>sys.exit(n)\<close> raises.
\<close>

datatype error =
    AttributeError
  | KeyError
  | TypeError
  | ValueError
  | ENOENT
  | RequestException
  | SystemExit int

text \<open>Truth value testing, as in \<open>if state:\<close> and \<open>if data:\<close>.\<close>

fun truthy :: "pyval \<Rightarrow> bool" where
  "truthy PNone = False"
| "truthy (PBool b) = b"
| "truthy (PInt n) = (n \<noteq> 0)"
| "truthy (PStr s) = (s \<noteq> [])"
| "truthy (PList xs) = (xs \<noteq> [])"
| "truthy (PTuple xs) = (xs \<noteq> [])"
| "truthy (PDict kvs) = (kvs \<noteq> [])"

text \<open>\<open>obj[key]\<close> for a string key: only a dict can be subscripted by a string.\<close>

fun py_getitem :: "pyval \<Rightarrow> string \<Rightarrow> error + pyval" where
  "py_getitem (PDict kvs) k = (case map_of kvs k of None \<Rightarrow> Inl KeyError | Some v \<Rightarrow> Inr v)"
| "py_getitem _ k = Inl TypeError"

text \<open>\<open>obj[key] = v\<close> for a string key; a dict keeps the position of a key it already has.\<close>

fun py_setitem :: "pyval \<Rightarrow> string \<Rightarrow> pyval \<Rightarrow> error + pyval" where
  "py_setitem (PDict kvs) k v = Inr (PDict (AList.update k v kvs))"
| "py_setitem _ k v = Inl TypeError"

text \<open>\<open>obj.get(key, default)\<close>: only a dict has the method.\<close>

fun py_get :: "pyval \<Rightarrow> string \<Rightarrow> pyval \<Rightarrow> error + pyval" where
  "py_get (PDict kvs) k d = (case map_of kvs k of None \<Rightarrow> Inr d | Some v \<Rightarrow> Inr v)"
| "py_get _ k d = Inl AttributeError"

text \<open>\<open>len(obj)\<close> and the sequence a \<open>for\<close> loop runs over.\<close>

fun py_len :: "pyval \<Rightarrow> error + nat" where
  "py_len (PStr s) = Inr (length s)"
| "py_len (PList xs) = Inr (length xs)"
| "py_len (PTuple xs) = Inr (length xs)"
| "py_len (PDict kvs) = Inr (length kvs)"
| "py_len _ = Inl TypeError"

fun py_iter :: "pyval \<Rightarrow> error + pyval list" where
  "py_iter (PStr s) = Inr (map (\<lambda>c. PStr [c]) s)"
| "py_iter (PList xs) = Inr xs"
| "py_iter (PTuple xs) = Inr xs"
| "py_iter (PDict kvs) = Inr (map (\<lambda>kv. PStr (fst kv)) kvs)"
| "py_iter _ = Inl TypeError"

text \<open>
  \<open>sub in obj\<close> for a string \<open>sub\<close>: a substring test on a string, membership by
  equality in a list or tuple, key membership in a dict, \<open>TypeError\<close> otherwise.
\<close>

fun starts_with :: "string \<Rightarrow> string \<Rightarrow> bool" where
  "starts_with [] s = True"
| "starts_with (c # cs) [] = False"
| "starts_with (c # cs) (d # ds) = (c = d \<and> starts_with cs ds)"

fun str_contains :: "string \<Rightarrow> string \<Rightarrow> bool" where
  "str_contains sub [] = (sub = [])"
| "str_contains sub (c # cs) = (starts_with sub (c # cs) \<or> str_contains sub cs)"

fun py_contains :: "string \<Rightarrow> pyval \<Rightarrow> error + bool" where
  "py_contains sub (PStr s) = Inr (str_contains sub s)"
| "py_contains sub (PList xs) = Inr (PStr sub \<in> set xs)"
| "py_contains sub (PTuple xs) = Inr (PStr sub \<in> set xs)"
| "py_contains sub (PDict kvs) = Inr (sub \<in> fst ` set kvs)"
| "py_contains sub _ = Inl TypeError"

subsection \<open>String conversion\<close>

text \<open>\<open>'%d' % n\<close>: the decimal digits of an integer.\<close>

definition digit_char :: "nat \<Rightarrow> char" where
  "digit_char n = char_of (48 + n)"

fun show_nat :: "nat \<Rightarrow> string" where
  "show_nat n = (if n < 10 then [digit_char n] else show_nat (n div 10) @ [digit_char (n mod 10)])"

declare show_nat.simps [simp del]

definition show_int :: "int \<Rightarrow> string" where
  "show_int i = (if i < 0 then CHR ''-'' # show_nat (nat (- i)) else show_nat (nat i))"

text \<open>
  \<open>repr\<close> of a string: single quotes unless the string has a single quote and no
  double quote; the quote character and the backslash are escaped, so are tab, newline,
  carriage return, and the other control characters as \<open>\xNN\<close>. Bytes from 128 on (UTF-8
  encoded text) are copied.
\<close>

definition hex_digit :: "nat \<Rightarrow> char" where
  "hex_digit n = (if n < 10 then char_of (48 + n) else char_of (87 + n))"

definition repr_char :: "char \<Rightarrow> char \<Rightarrow> string" where
  "repr_char q c =
     (if c = q \<or> c = CHR 0x5C then [CHR 0x5C, c]
      else if c = CHR 0x09 then [CHR 0x5C, CHR ''t'']
      else if c = CHR 0x0A then [CHR 0x5C, CHR ''n'']
      else if c = CHR 0x0D then [CHR 0x5C, CHR ''r'']
      else if (of_char c :: nat) < 32 \<or> (of_char c :: nat) = 127
        then [CHR 0x5C, CHR ''x'', hex_digit (of_char c div 16), hex_digit (of_char c mod 16)]
      else [c])"

definition repr_str :: "string \<Rightarrow> string" where
  "repr_str s =
     (let q = (if CHR 0x27 \<in> set s \<and> CHR 0x22 \<notin> set s then CHR 0x22 else CHR 0x27)
      in q # concat (map (repr_char q) s) @ [q])"

fun join_comma :: "string list \<Rightarrow> string" where
  "join_comma [] = []"
| "join_comma [s] = s"
| "join_comma (s # t # ts) = s @ '', '' @ join_comma (t # ts)"

fun py_repr :: "pyval \<Rightarrow> string" where
  "py_repr PNone = ''None''"
| "py_repr (PBool b) = (if b then ''True'' else ''False'')"
| "py_repr (PInt n) = show_int n"
| "py_repr (PStr s) = repr_str s"
| "py_repr (PList xs) = ''['' @ join_comma (map py_repr xs) @ '']''"
| "py_repr (PTuple xs) =
     (case xs of [x] \<Rightarrow> ''('' @ py_repr x @ '',)''
      | _ \<Rightarrow> ''('' @ join_comma (map py_repr xs) @ '')'')"
| "py_repr (PDict kvs) =
     ''{'' @ join_comma (map (\<lambda>kv. repr_str (fst kv) @ '': '' @ py_repr (snd kv)) kvs) @ ''}''"

text \<open>\<open>str(obj)\<close>, which \<open>%s\<close> applies: a string is itself, everything else its \<open>repr\<close>.\<close>

fun py_str :: "pyval \<Rightarrow> string" where
  "py_str (PStr s) = s"
| "py_str v = py_repr v"

text \<open>
  \<open>fmt % obj\<close> for a format with one \<open>%s\<close>: a tuple operand is the argument list, so
  it must have exactly one element.
\<close>

fun py_format1 :: "pyval \<Rightarrow> error + string" where
  "py_format1 (PTuple [x]) = Inr (py_str x)"
| "py_format1 (PTuple xs) = Inl TypeError"
| "py_format1 v = Inr (py_str v)"

section \<open>Configuration, disk, network and log\<close>

text \<open>
  The parsed command line (\<open>parser.parse_args()\<close>). \<open>statedir\<close> is \<open>None\<close> when
  \<open>--statedir\<close> is not given. A path is its text.
\<close>

type_synonym path = string

datatype loglevel = DEBUG | INFO | WARNING | ERROR | CRITICAL

record args =
  loglevel :: loglevel
  statedir :: "path option"
  githubroot :: string
  trello_json :: path
  github_owner :: string
  github_repo :: string
  github_user :: string
  github_password :: string

text \<open>
  A file holds text that \<open>json.load\<close> decodes to a document, or text it rejects. What
  \<open>json.dump\<close> writes is stored as the document it encodes: encoding and decoding are
  the library's, and reading a file back gives the document written to it. Directories
  are not part of the disk: the state directory exists and is writable (the driver
  calls \<open>ensure_dir\<close> before any card is saved).
\<close>

datatype file_content = Json_File pyval | Other_File

datatype verb = GET | POST | PATCH

text \<open>
  The \<open>data\<close> argument of a request: the text \<open>json.dumps\<close> made of a document, or the
  caller's falsy value passed on as it is.
\<close>

datatype payload = Dumped pyval | Raw pyval

record http_request =
  http_method :: verb
  url :: pyval
  auth :: "string \<times> string"
  data :: payload

text \<open>
  What the code reads of a response: \<open>ok\<close>, \<open>status_code\<close>, \<open>reason\<close>, and
  \<open>json()\<close>, which is \<open>None\<close> here when the body does not decode (\<open>ValueError\<close>).
\<close>

record response =
  ok :: bool
  status_code :: int
  reason :: string
  json :: "pyval option"

datatype reply = Transport_Error | Reply response

text \<open>
  The remote side answers each request, given the requests sent before it.
\<close>

type_synonym server = "http_request list \<Rightarrow> http_request \<Rightarrow> reply"

text \<open>
  A logging call: logger name, level, message and its arguments (formatting is left to
  the handler, as in \<open>logging\<close>). The list holds every call made, whatever level the
  handler shows.
\<close>

record log_record =
  logger :: string
  level :: loglevel
  msg :: pyval
  msg_args :: "pyval list"

record world =
  fs :: "path \<rightharpoonup> file_content"
  sent :: "http_request list"
  log :: "log_record list"

definition log_call :: "string \<Rightarrow> loglevel \<Rightarrow> pyval \<Rightarrow> pyval list \<Rightarrow> world \<Rightarrow> world" where
  "log_call n l m xs w = w\<lparr>log := log w @ [\<lparr>logger = n, level = l, msg = m, msg_args = xs\<rparr>]\<rparr>"

text \<open>\<open>statedir.join(name)\<close>: the file \<open>name\<close> in the directory.\<close>

definition path_join :: "path \<Rightarrow> string \<Rightarrow> path" where
  "path_join d n = d @ ''/'' @ n"

text \<open>\<open>with p.open() as handle: json.load(handle)\<close>.\<close>

definition read_json :: "path \<Rightarrow> world \<Rightarrow> error + pyval" where
  "read_json p w =
     (case fs w p of
        None \<Rightarrow> Inl ENOENT
      | Some Other_File \<Rightarrow> Inl ValueError
      | Some (Json_File v) \<Rightarrow> Inr v)"

section \<open>The request client: \<open>gh_request\<close>\<close>

text \<open>
  \<open>gh_request\<close> returns \<open>False\<close> or the response. \<open>if not req\<close> on a response reads
  its \<open>ok\<close>.
\<close>

datatype gh_result = Failure | Response response

fun gh_truthy :: "gh_result \<Rightarrow> bool" where
  "gh_truthy Failure = False"
| "gh_truthy (Response r) = ok r"

definition http_error_message :: "response \<Rightarrow> pyval" where
  "http_error_message req = PStr (''HTTP error '' @ show_int (status_code req) @ '': '' @ reason req)"

definition gh_request ::
  "server \<Rightarrow> pyval \<Rightarrow> args \<Rightarrow> pyval \<Rightarrow> verb option \<Rightarrow> world \<Rightarrow> (error + gh_result) \<times> world" where
  "gh_request srv path a dat req_fn w =
     (let req_fn1 = (if truthy dat then (case req_fn of None \<Rightarrow> POST | Some f \<Rightarrow> f)
                     else (case req_fn of None \<Rightarrow> GET | Some f \<Rightarrow> f));
          dat1 = (if truthy dat then Dumped dat else Raw dat)
      in case py_contains ''://'' path of
           Inl e \<Rightarrow> (Inl e, w)
         | Inr has \<Rightarrow>
             let req_url = (if \<not> has then PStr (githubroot a @ ''/'' @ py_str path) else path);
                 rq = \<lparr>http_method = req_fn1, url = req_url,
                       auth = (github_user a, github_password a), data = dat1\<rparr>;
                 w1 = w\<lparr>sent := sent w @ [rq]\<rparr>
             in (case srv (sent w) rq of
                   Transport_Error \<Rightarrow> (Inl RequestException, w1)
                 | Reply req \<Rightarrow>
                     if \<not> ok req then
                       (case (case json req of
                                None \<Rightarrow> Inr (http_error_message req)
                              | Some d \<Rightarrow> py_get d ''message'' (http_error_message req)) of
                          Inl e \<Rightarrow> (Inl e, w1)
                        | Inr message \<Rightarrow> (Inr Failure, log_call ''github'' ERROR message [] w1))
                     else (Inr (Response req), w1)))"

section \<open>The import record: \<open>Card\<close>\<close>

record card =
  card_data :: pyval
  state_file :: "path option"
  args :: args

text \<open>\<open>Card.__init__\<close>.\<close>

definition Card :: "pyval \<Rightarrow> args \<Rightarrow> error + card" where
  "Card cd a =
     (case statedir a of
        None \<Rightarrow> Inr \<lparr>card_data = cd, state_file = None, args = a\<rparr>
      | Some d \<Rightarrow>
          (case py_getitem cd ''id'' of
             Inl e \<Rightarrow> Inl e
           | Inr i \<Rightarrow>
               (case py_format1 i of
                  Inl e \<Rightarrow> Inl e
                | Inr s \<Rightarrow> Inr \<lparr>card_data = cd, state_file = Some (path_join d (s @ ''.json'')),
                               args = a\<rparr>)))"

text \<open>
  The property \<open>Card.state\<close>: \<open>self.state_file.open()\<close> on \<open>None\<close> raises
  \<open>AttributeError\<close>; only a missing file (\<open>ENOENT\<close>) is caught and gives \<open>None\<close>.
\<close>

definition state :: "card \<Rightarrow> world \<Rightarrow> error + pyval" where
  "state c w =
     (case state_file c of
        None \<Rightarrow> Inl AttributeError
      | Some p \<Rightarrow>
          (case read_json p w of
             Inl ENOENT \<Rightarrow> Inr PNone
           | Inl e \<Rightarrow> Inl e
           | Inr v \<Rightarrow> Inr v))"

text \<open>
  \<open>Card.save\<close> up to its call of \<open>gh_request\<close> (the lines that choose \<open>req_fn\<close> and
  \<open>req_url\<close> and fill \<open>state\<close>): the arguments of that call. On the create path
  \<open>req_url\<close> is assigned an expression that ends in a comma, a one-element tuple.
\<close>

definition save_prepare :: "card \<Rightarrow> world \<Rightarrow> error + (verb option \<times> pyval \<times> pyval)" where
  "save_prepare c w =
     (case state c w of
        Inl e \<Rightarrow> Inl e
      | Inr st \<Rightarrow>
          (case (if truthy st
                 then (case py_getitem st ''url'' of
                         Inl e \<Rightarrow> Inl e
                       | Inr u \<Rightarrow> Inr (Some PATCH, u, st))
                 else Inr (None,
                           PTuple [PStr (''repos/'' @ github_owner (args c) @ ''/''
                                          @ github_repo (args c) @ ''/issues'')],
                           PDict [])) of
             Inl e \<Rightarrow> Inl e
           | Inr (req_fn, req_url, st0) \<Rightarrow>
               (case py_getitem (card_data c) ''name'' of
                  Inl e \<Rightarrow> Inl e
                | Inr nm \<Rightarrow>
                    (case py_setitem st0 ''title'' nm of
                       Inl e \<Rightarrow> Inl e
                     | Inr st1 \<Rightarrow>
                         (case py_getitem (card_data c) ''desc'' of
                            Inl e \<Rightarrow> Inl e
                          | Inr ds \<Rightarrow>
                              (case py_setitem st1 ''body'' ds of
                                 Inl e \<Rightarrow> Inl e
                               | Inr st2 \<Rightarrow> Inr (req_fn, req_url, st2)))))))"

text \<open>
  \<open>Card.save\<close> after the call: on a response, \<open>state['url'] = req.json()['url']\<close> and
  the state is written to the state file. The write is taken to succeed: a state file
  path whose directory is missing (a card id with a slash in it) is outside the model.
\<close>

definition save_store :: "card \<Rightarrow> pyval \<Rightarrow> response \<Rightarrow> world \<Rightarrow> (error + bool) \<times> world" where
  "save_store c st req w =
     (case json req of
        None \<Rightarrow> (Inl ValueError, w)
      | Some d \<Rightarrow>
          (case py_getitem d ''url'' of
             Inl e \<Rightarrow> (Inl e, w)
           | Inr u \<Rightarrow>
               (case py_setitem st ''url'' u of
                  Inl e \<Rightarrow> (Inl e, w)
                | Inr st3 \<Rightarrow>
                    (case state_file c of
                       None \<Rightarrow> (Inl AttributeError, w)
                     | Some p \<Rightarrow> (Inr True, w\<lparr>fs := (fs w)(p \<mapsto> Json_File st3)\<rparr>)))))"

definition save :: "server \<Rightarrow> card \<Rightarrow> world \<Rightarrow> (error + bool) \<times> world" where
  "save srv c w =
     (case save_prepare c w of
        Inl e \<Rightarrow> (Inl e, w)
      | Inr (req_fn, req_url, st) \<Rightarrow>
          (case gh_request srv req_url (args c) st req_fn w of
             (Inl e, w1) \<Rightarrow> (Inl e, w1)
           | (Inr req, w1) \<Rightarrow>
               if \<not> gh_truthy req then (Inr False, w1)
               else (case req of
                       Failure \<Rightarrow> (Inr False, w1)
                     | Response r \<Rightarrow> save_store c st r w1)))"

section \<open>The driver: \<open>main\<close>\<close>

text \<open>
  \<open>main\<close> up to the authentication request: load the export, log its name and url,
  and log the number of cards. \<open>logging.basicConfig\<close> and \<open>ensure_dir\<close> leave the model's
  world as it is.
\<close>

definition main_load :: "args \<Rightarrow> world \<Rightarrow> (error + pyval) \<times> world" where
  "main_load a w =
     (case read_json (trello_json a) w of
        Inl e \<Rightarrow> (Inl e, w)
      | Inr trello_data \<Rightarrow>
          (case py_get trello_data ''name'' (PStr ''Unknown Trello name'') of
             Inl e \<Rightarrow> (Inl e, w)
           | Inr n \<Rightarrow>
               (case py_get trello_data ''url'' (PStr ''Unknown URL'') of
                  Inl e \<Rightarrow> (Inl e, w)
                | Inr u \<Rightarrow>
                    let w1 = log_call ''root'' INFO (PStr ''Importing from %s (%s)'') [n, u] w;
                        w2 = (case statedir a of
                                None \<Rightarrow> w1
                              | Some d \<Rightarrow> log_call ''root'' DEBUG (PStr ''Saving state'') [] w1)
                    in (case py_getitem trello_data ''cards'' of
                          Inl e \<Rightarrow> (Inl e, w2)
                        | Inr cards \<Rightarrow>
                            (case py_len cards of
                               Inl e \<Rightarrow> (Inl e, w2)
                             | Inr k \<Rightarrow>
                                 (Inr trello_data,
                                  log_call ''cards import'' INFO (PStr ''Importing %d cards'')
                                    [PInt (int k)] w2))))))"

text \<open>
  The loop over the cards. Its body ends in \<open>return\<close>, so the function makes no
  recursive call: the cards after the first are never looked at.
\<close>

fun import_cards :: "server \<Rightarrow> args \<Rightarrow> pyval list \<Rightarrow> world \<Rightarrow> (error + unit) \<times> world" where
  "import_cards srv a [] w = (Inr (), w)"
| "import_cards srv a (cd # rest) w =
     (case py_getitem cd ''name'' of
        Inl e \<Rightarrow> (Inl e, w)
      | Inr nm \<Rightarrow>
          let w1 = log_call ''cards import'' DEBUG (PStr ''Card %s'') [nm] w
          in (case Card cd a of
                Inl e \<Rightarrow> (Inl e, w1)
              | Inr c \<Rightarrow>
                  (case save srv c w1 of
                     (Inl e, w2) \<Rightarrow> (Inl e, w2)
                   | (Inr saved, w2) \<Rightarrow> (Inr (), w2))))"

definition main :: "server \<Rightarrow> args \<Rightarrow> world \<Rightarrow> (error + unit) \<times> world" where
  "main srv a w =
     (case main_load a w of
        (Inl e, w0) \<Rightarrow> (Inl e, w0)
      | (Inr trello_data, w0) \<Rightarrow>
          (case gh_request srv (PStr ''user'') a PNone None w0 of
             (Inl e, w1) \<Rightarrow> (Inl e, w1)
           | (Inr req, w1) \<Rightarrow>
               if \<not> gh_truthy req then (Inl (SystemExit 1), w1)
               else (case req of
                       Failure \<Rightarrow> (Inl (SystemExit 1), w1)
                     | Response r \<Rightarrow>
                         (case (case json r of
                                  None \<Rightarrow> Inl ValueError
                                | Some d \<Rightarrow> py_get d ''name'' (PStr ''unknown user name'')) of
                            Inl e \<Rightarrow> (Inl e, w1)
                          | Inr n \<Rightarrow>
                              let w2 = log_call ''root'' INFO
                                         (PStr ''Importing as GitHub user %s'') [n] w1
                              in (case py_getitem trello_data ''cards'' of
                                    Inl e \<Rightarrow> (Inl e, w2)
                                  | Inr cards \<Rightarrow>
                                      (case py_iter cards of
                                         Inl e \<Rightarrow> (Inl e, w2)
                                       | Inr cs \<Rightarrow> import_cards srv a cs w2))))))"


section \<open>The request \<open>gh_request\<close> sends\<close>

text \<open>
  The request \<open>gh_request\<close> passes to \<open>req_fn\<close>, given whether \<open>'://'\<close> was found in
  \<open>path\<close>: the verb, the target, the credentials and the payload.
\<close>

definition request_of :: "pyval \<Rightarrow> args \<Rightarrow> pyval \<Rightarrow> verb option \<Rightarrow> bool \<Rightarrow> http_request" where
  "request_of path a dat req_fn has =
     \<lparr>http_method = (if truthy dat then (case req_fn of None \<Rightarrow> POST | Some f \<Rightarrow> f)
                else (case req_fn of None \<Rightarrow> GET | Some f \<Rightarrow> f)),
      url = (if \<not> has then PStr (githubroot a @ ''/'' @ py_str path) else path),
      auth = (github_user a, github_password a),
      data = (if truthy dat then Dumped dat else Raw dat)\<rparr>"

section \<open>Sample runs\<close>

text \<open>
  A command line, an export with two cards, the disk before and after a run, the
  requests of these runs, and servers that give every request the same answer.
\<close>

definition demo_args :: args where
  "demo_args =
     \<lparr>loglevel = INFO, statedir = Some ''state'', githubroot = ''https://api.github.com'',
      trello_json = ''board.json'', github_owner = ''octocat'', github_repo = ''hello'',
      github_user = ''octocat'', github_password = ''secret''\<rparr>"

definition demo_card_data :: pyval where
  "demo_card_data =
     PDict [(''id'', PStr ''c1''), (''name'', PStr ''Fix login''), (''desc'', PStr ''Steps'')]"

definition demo_card :: card where
  "demo_card = \<lparr>card_data = demo_card_data, state_file = Some ''state/c1.json'', args = demo_args\<rparr>"

definition demo_export :: pyval where
  "demo_export =
     PDict [(''name'', PStr ''Roadmap''),
            (''cards'', PList [demo_card_data,
               PDict [(''id'', PStr ''c2''), (''name'', PStr ''Add search''),
                      (''desc'', PStr ''Later'')]])]"

definition demo_state :: pyval where
  "demo_state =
     PDict [(''url'', PStr ''https://api.github.com/repos/octocat/hello/issues/1''),
            (''title'', PStr ''Old title''), (''body'', PStr ''Old text'')]"

definition demo_saved :: pyval where
  "demo_saved =
     PDict [(''title'', PStr ''Fix login''), (''body'', PStr ''Steps''),
            (''url'', PStr ''https://api.github.com/repos/octocat/hello/issues/1'')]"

definition user_request :: http_request where
  "user_request =
     \<lparr>http_method = GET, url = PStr ''https://api.github.com/user'',
      auth = (''octocat'', ''secret''), data = Raw PNone\<rparr>"

text \<open>
  The target of the create request is the API root, a slash, and the text of the
  one-element tuple: an opening parenthesis, the quoted path, a comma and a closing
  parenthesis.
\<close>

definition create_request :: http_request where
  "create_request =
     \<lparr>http_method = POST,
      url = PStr (''https://api.github.com/('' @ [CHR 0x27] @ ''repos/octocat/hello/issues''
                   @ [CHR 0x27] @ '',)''),
      auth = (''octocat'', ''secret''),
      data = Dumped (PDict [(''title'', PStr ''Fix login''), (''body'', PStr ''Steps'')])\<rparr>"

definition patch_request :: http_request where
  "patch_request =
     \<lparr>http_method = PATCH, url = PStr ''https://api.github.com/repos/octocat/hello/issues/1'',
      auth = (''octocat'', ''secret''),
      data = Dumped (PDict [(''url'', PStr ''https://api.github.com/repos/octocat/hello/issues/1''),
                            (''title'', PStr ''Fix login''), (''body'', PStr ''Steps'')])\<rparr>"

definition empty_world :: world where
  "empty_world = \<lparr>fs = Map.empty, sent = [], log = []\<rparr>"

definition world_with_state :: world where
  "world_with_state =
     \<lparr>fs = [''state/c1.json'' \<mapsto> Json_File demo_state], sent = [], log = []\<rparr>"

definition world_after_create :: world where
  "world_after_create =
     \<lparr>fs = [''state/c1.json'' \<mapsto> Json_File demo_saved], sent = [create_request], log = []\<rparr>"

definition world_with_export :: world where
  "world_with_export = \<lparr>fs = [''board.json'' \<mapsto> Json_File demo_export], sent = [], log = []\<rparr>"

definition world_after_load :: world where
  "world_after_load =
     \<lparr>fs = [''board.json'' \<mapsto> Json_File demo_export], sent = [],
      log = [\<lparr>logger = ''root'', level = INFO, msg = PStr ''Importing from %s (%s)'',
               msg_args = [PStr ''Roadmap'', PStr ''Unknown URL'']\<rparr>,
             \<lparr>logger = ''root'', level = DEBUG, msg = PStr ''Saving state'', msg_args = []\<rparr>,
             \<lparr>logger = ''cards import'', level = INFO, msg = PStr ''Importing %d cards'',
               msg_args = [PInt 2]\<rparr>]\<rparr>"

definition world_before_first_card :: world where
  "world_before_first_card =
     world_after_load
       \<lparr>sent := [user_request],
        log := log world_after_load @
          [\<lparr>logger = ''root'', level = INFO, msg = PStr ''Importing as GitHub user %s'',
             msg_args = [PStr ''unknown user name'']\<rparr>,
           \<lparr>logger = ''cards import'', level = DEBUG, msg = PStr ''Card %s'',
             msg_args = [PStr ''Fix login'']\<rparr>]\<rparr>"

definition resp_created :: response where
  "resp_created =
     \<lparr>ok = True, status_code = 201, reason = ''Created'',
      json = Some (PDict [(''url'', PStr ''https://api.github.com/repos/octocat/hello/issues/1'')])\<rparr>"

definition resp_bad_credentials :: response where
  "resp_bad_credentials =
     \<lparr>ok = False, status_code = 401, reason = ''Unauthorized'',
      json = Some (PDict [(''message'', PStr ''Bad credentials'')])\<rparr>"

definition resp_not_found :: response where
  "resp_not_found =
     \<lparr>ok = False, status_code = 404, reason = ''Not Found'',
      json = Some (PDict [(''documentation_url'', PStr ''https://developer.github.com/v3'')])\<rparr>"

definition resp_bad_gateway :: response where
  "resp_bad_gateway =
     \<lparr>ok = False, status_code = 502, reason = ''Bad Gateway'', json = None\<rparr>"

definition resp_list_body :: response where
  "resp_list_body =
     \<lparr>ok = False, status_code = 500, reason = ''Internal Server Error'', json = Some (PList [])\<rparr>"

definition resp_text_body :: response where
  "resp_text_body =
     \<lparr>ok = False, status_code = 503, reason = ''Service Unavailable'',
      json = Some (PStr ''down for maintenance'')\<rparr>"

definition always :: "response \<Rightarrow> server" where
  "always r = (\<lambda>history rq. Reply r)"

text \<open>A server that cannot be reached: every request ends in a transport error.\<close>

definition unreachable :: server where
  "unreachable = (\<lambda>history rq. Transport_Error)"

section \<open>Facts about the Python operations\<close>

lemma py_getitem_InrD:
  "py_getitem v k = Inr x \<Longrightarrow> \<exists>kvs. v = PDict kvs \<and> map_of kvs k = Some x"
  by (cases v) (auto split: option.splits)

lemma py_setitem_InrD:
  "py_setitem v k x = Inr v' \<Longrightarrow> \<exists>kvs. v = PDict kvs \<and> v' = PDict (AList.update k x kvs)"
  by (cases v) auto

lemma update_not_Nil: "AList.update k v al \<noteq> []"
  by (cases al) auto

section \<open>Facts about \<open>gh_request\<close>\<close>

lemma gh_request_TypeError:
  "py_contains ''://'' path = Inl e \<Longrightarrow> gh_request srv path a dat req_fn w = (Inl e, w)"
  by (simp add: gh_request_def Let_def)

lemma gh_request_unfold:
  assumes "py_contains ''://'' path = Inr has"
  shows "gh_request srv path a dat req_fn w =
    (case srv (sent w) (request_of path a dat req_fn has) of
       Transport_Error \<Rightarrow>
         (Inl RequestException, w\<lparr>sent := sent w @ [request_of path a dat req_fn has]\<rparr>)
     | Reply req \<Rightarrow>
         if \<not> ok req then
           (case (case json req of
                    None \<Rightarrow> Inr (http_error_message req)
                  | Some d \<Rightarrow> py_get d ''message'' (http_error_message req)) of
              Inl e \<Rightarrow> (Inl e, w\<lparr>sent := sent w @ [request_of path a dat req_fn has]\<rparr>)
            | Inr message \<Rightarrow>
                (Inr Failure,
                 log_call ''github'' ERROR message []
                   (w\<lparr>sent := sent w @ [request_of path a dat req_fn has]\<rparr>)))
         else (Inr (Response req), w\<lparr>sent := sent w @ [request_of path a dat req_fn has]\<rparr>))"
  by (simp only: gh_request_def request_of_def Let_def assms sum.case)

lemma gh_request_sent:
  assumes "py_contains ''://'' path = Inr has"
  shows "sent (snd (gh_request srv path a dat req_fn w)) =
           sent w @ [request_of path a dat req_fn has]"
  by (simp add: gh_request_unfold [OF assms] log_call_def
        split: reply.split sum.split option.split)

lemma gh_request_fs: "fs (snd (gh_request srv path a dat req_fn w)) = fs w"
proof (cases "py_contains ''://'' path")
  case (Inl e)
  then show ?thesis by (simp add: gh_request_TypeError)
next
  case (Inr has)
  then show ?thesis
    by (simp add: gh_request_unfold [OF Inr] log_call_def
          split: reply.split sum.split option.split)
qed

lemma gh_request_Response_ok:
  assumes "gh_request srv path a dat req_fn w = (Inr (Response r), w1)"
  shows "ok r"
proof (cases "py_contains ''://'' path")
  case (Inl e)
  with assms show ?thesis by (simp add: gh_request_TypeError)
next
  case (Inr has)
  with assms show ?thesis
    by (simp add: gh_request_unfold [OF Inr] split: reply.splits sum.splits if_splits)
qed


lemma gh_request_not_ok:
  assumes "py_contains ''://'' path = Inr has"
      and "srv (sent w) (request_of path a dat req_fn has) = Reply req"
      and "\<not> ok req"
  shows "gh_request srv path a dat req_fn w =
           (case (case json req of
                    None \<Rightarrow> Inr (http_error_message req)
                  | Some d \<Rightarrow> py_get d ''message'' (http_error_message req)) of
              Inl e \<Rightarrow> (Inl e, w\<lparr>sent := sent w @ [request_of path a dat req_fn has]\<rparr>)
            | Inr message \<Rightarrow>
                (Inr Failure,
                 w\<lparr>sent := sent w @ [request_of path a dat req_fn has],
                   log := log w @ [\<lparr>logger = ''github'', level = ERROR, msg = message,
                                     msg_args = []\<rparr>]\<rparr>))"
  using assms(2,3)
  by (simp add: gh_request_unfold [OF assms(1)] log_call_def split: sum.split)

lemma gh_request_made:
  assumes "gh_request srv path a dat req_fn w = (r, w')"
      and "sent w' = sent w @ [rq]"
  shows "\<exists>has. py_contains ''://'' path = Inr has \<and> rq = request_of path a dat req_fn has"
proof (cases "py_contains ''://'' path")
  case (Inl e)
  with assms show ?thesis by (simp add: gh_request_TypeError)
next
  case (Inr has)
  have "sent w' = sent w @ [request_of path a dat req_fn has]"
    using gh_request_sent [OF Inr, of srv a dat req_fn w] assms(1) by simp
  with assms(2) Inr show ?thesis by simp
qed


lemma user_path: "py_contains ''://'' (PStr ''user'') = Inr False"
  by simp


text \<open>
  What holds of every response that is not ok and whose body does not decode or
  decodes to an object: one error is logged on the logger \<open>github\<close>, the object's
  \<open>message\<close> when it has one and the text made of status code and reason otherwise, and
  the failure value is returned.
\<close>

lemma gh_request_error_logged:
  assumes "gh_request srv path a dat req_fn w = (r, w')"
      and "sent w' = sent w @ [rq]"
      and "srv (sent w) rq = Reply req"
      and "\<not> ok req"
      and "json req = None \<or> (\<exists>kvs. json req = Some (PDict kvs))"
  shows "r = Inr Failure \<and>
         log w' = log w @ [\<lparr>logger = ''github'', level = ERROR,
           msg = (case json req of
                    Some (PDict kvs) \<Rightarrow>
                      (case map_of kvs ''message'' of
                         Some m \<Rightarrow> m
                       | None \<Rightarrow> http_error_message req)
                  | _ \<Rightarrow> http_error_message req),
           msg_args = []\<rparr>]"
proof -
  from gh_request_made [OF assms(1,2)] obtain has
    where has: "py_contains ''://'' path = Inr has"
      and rq: "rq = request_of path a dat req_fn has"
    by blast
  note unf = gh_request_not_ok [OF has, of srv w a dat req_fn req]
  from assms(5) show ?thesis
  proof
    assume "json req = None"
    with unf assms(1,3,4) rq show ?thesis by auto
  next
    assume "\<exists>kvs. json req = Some (PDict kvs)"
    then obtain kvs where "json req = Some (PDict kvs)" ..
    with unf assms(1,3,4) rq show ?thesis by (auto split: option.splits)
  qed
qed

section \<open>Facts about \<open>Card.save\<close>\<close>

lemma state_file_found:
  "state_file c = Some p \<Longrightarrow> fs w p = Some (Json_File v) \<Longrightarrow> state c w = Inr v"
  by (simp add: state_def read_json_def)

lemma state_file_missing:
  "state_file c = Some p \<Longrightarrow> fs w p = None \<Longrightarrow> state c w = Inr PNone"
  by (simp add: state_def read_json_def)

lemma save_prepare_no_state_file:
  "state_file c = None \<Longrightarrow> save_prepare c w = Inl AttributeError"
  by (simp add: save_prepare_def state_def)

lemma save_prepare_update:
  assumes "state c w = Inr (PDict st)"
      and "map_of st ''url'' = Some u"
      and "py_getitem (card_data c) ''name'' = Inr nm"
      and "py_getitem (card_data c) ''desc'' = Inr ds"
  shows "save_prepare c w =
           Inr (Some PATCH, u, PDict (AList.update ''body'' ds (AList.update ''title'' nm st)))"
proof -
  from assms(2) have "st \<noteq> []" by auto
  with assms show ?thesis by (simp add: save_prepare_def)
qed

lemma save_prepare_create:
  assumes "state c w = Inr PNone"
      and "py_getitem (card_data c) ''name'' = Inr nm"
      and "py_getitem (card_data c) ''desc'' = Inr ds"
  shows "save_prepare c w =
           Inr (None,
                PTuple [PStr (''repos/'' @ github_owner (args c) @ ''/''
                               @ github_repo (args c) @ ''/issues'')],
                PDict [(''title'', nm), (''body'', ds)])"
  using assms by (simp add: save_prepare_def)

lemma save_prepare_InrD:
  assumes "save_prepare c w = Inr (req_fn, req_url, st)"
  shows "\<exists>kvs nm ds. st = PDict kvs \<and>
           map_of kvs ''title'' = Some nm \<and> map_of kvs ''body'' = Some ds \<and>
           py_getitem (card_data c) ''name'' = Inr nm \<and>
           py_getitem (card_data c) ''desc'' = Inr ds"
  using assms
  by (auto simp: save_prepare_def update_conv' split: sum.splits if_splits
        dest!: py_setitem_InrD)

lemma save_store_TrueD:
  assumes "save_store c st r w1 = (Inr True, w')"
  shows "\<exists>d u st3 p. json r = Some d \<and> py_getitem d ''url'' = Inr u \<and>
           py_setitem st ''url'' u = Inr st3 \<and> state_file c = Some p \<and>
           w' = w1\<lparr>fs := (fs w1)(p \<mapsto> Json_File st3)\<rparr>"
  using assms by (auto simp: save_store_def split: option.splits sum.splits)

lemma save_store_fs:
  "fst (save_store c st r w1) \<noteq> Inr True \<Longrightarrow> fs (snd (save_store c st r w1)) = fs w1"
  by (auto simp: save_store_def split: option.splits sum.splits)

lemma save_TrueD:
  assumes "save srv c w = (Inr True, w')"
  shows "\<exists>req_fn req_url st r w1. save_prepare c w = Inr (req_fn, req_url, st) \<and>
           gh_request srv req_url (args c) st req_fn w = (Inr (Response r), w1) \<and>
           save_store c st r w1 = (Inr True, w')"
  using assms
  by (auto simp: save_def split: sum.splits prod.splits gh_result.splits if_splits)

lemma save_sent:
  assumes "save_prepare c w = Inr (req_fn, req_url, st)"
  shows "sent (snd (save srv c w)) = sent (snd (gh_request srv req_url (args c) st req_fn w))"
  by (simp add: save_def assms save_store_def
        split: sum.split prod.split gh_result.split option.split)

lemma save_sent_cases:
  "sent (snd (save srv c w)) = sent w \<or> (\<exists>rq. sent (snd (save srv c w)) = sent w @ [rq])"
proof (cases "save_prepare c w")
  case (Inl e)
  then show ?thesis by (simp add: save_def)
next
  case (Inr t)
  obtain req_fn req_url st where t: "t = (req_fn, req_url, st)" by (cases t)
  show ?thesis
  proof (cases "py_contains ''://'' req_url")
    case (Inl e)
    then show ?thesis
      using save_sent [OF Inr [unfolded t], of srv] by (simp add: gh_request_TypeError)
  next
    case has: (Inr has)
    show ?thesis
      using save_sent [OF Inr [unfolded t], of srv]
        gh_request_sent [OF has, of srv "args c" st req_fn w]
      by simp
  qed
qed

text \<open>
  Whatever makes \<open>save\<close> end without returning \<open>True\<close> (the failure value, or an
  exception before, in or after the request), the disk stays as it was.
\<close>

lemma save_keeps_disk:
  assumes "fst (save srv c w) \<noteq> Inr True"
  shows "fs (snd (save srv c w)) = fs w"
proof (cases "save_prepare c w")
  case (Inl e)
  then show ?thesis by (simp add: save_def)
next
  case (Inr t)
  obtain req_fn req_url st where t: "t = (req_fn, req_url, st)" by (cases t)
  obtain res w1 where g: "gh_request srv req_url (args c) st req_fn w = (res, w1)"
    by (cases "gh_request srv req_url (args c) st req_fn w")
  have w1: "fs w1 = fs w"
    using gh_request_fs [of srv req_url "args c" st req_fn w] g by simp
  show ?thesis
  proof (cases res)
    case (Inl e)
    with Inr t g have "save srv c w = (Inl e, w1)" by (simp add: save_def)
    with w1 show ?thesis by simp
  next
    case req: (Inr req)
    show ?thesis
    proof (cases "gh_truthy req")
      case False
      with Inr t g req have "save srv c w = (Inr False, w1)" by (simp add: save_def)
      with w1 show ?thesis by simp
    next
      case True
      then obtain r where r: "req = Response r" by (cases req) simp_all
      with True Inr t g req have s: "save srv c w = save_store c st r w1"
        by (simp add: save_def)
      with assms have "fst (save_store c st r w1) \<noteq> Inr True" by simp
      from save_store_fs [OF this] s w1 show ?thesis by simp
    qed
  qed
qed

text \<open>
  The create request of any card that has no state yet: the target is never the
  collection path joined to the API root, since it continues with a parenthesis.
\<close>

lemma save_create_request:
  assumes "state c w = Inr PNone"
      and "py_getitem (card_data c) ''name'' = Inr nm"
      and "py_getitem (card_data c) ''desc'' = Inr ds"
  shows "sent (snd (save srv c w)) =
           sent w @ [\<lparr>http_method = POST,
                      url = PStr (githubroot (args c) @ ''/('' @
                              repr_str (''repos/'' @ github_owner (args c) @ ''/''
                                         @ github_repo (args c) @ ''/issues'') @ '',)''),
                      auth = (github_user (args c), github_password (args c)),
                      data = Dumped (PDict [(''title'', nm), (''body'', ds)])\<rparr>]"
proof -
  let ?path = "PTuple [PStr (''repos/'' @ github_owner (args c) @ ''/''
                               @ github_repo (args c) @ ''/issues'')]"
  let ?st = "PDict [(''title'', nm), (''body'', ds)]"
  have has: "py_contains ''://'' ?path = Inr False" by simp
  have "sent (snd (save srv c w)) = sent (snd (gh_request srv ?path (args c) ?st None w))"
    by (rule save_sent [OF save_prepare_create [OF assms]])
  also have "\<dots> = sent w @ [request_of ?path (args c) ?st None False]"
    by (rule gh_request_sent [OF has])
  finally show ?thesis by (simp add: request_of_def)
qed

section \<open>Facts about \<open>main\<close>\<close>


section \<open>The sample runs, evaluated\<close>

lemma demo_Card: "Card demo_card_data demo_args = Inr demo_card"
  by (simp add: Card_def demo_card_data_def demo_args_def demo_card_def path_join_def)

lemma demo_card_fields:
  "args demo_card = demo_args" "state_file demo_card = Some ''state/c1.json''"
  "py_getitem (card_data demo_card) ''name'' = Inr (PStr ''Fix login'')"
  "py_getitem (card_data demo_card) ''desc'' = Inr (PStr ''Steps'')"
  by (simp_all add: demo_card_def demo_card_data_def)

lemma demo_target:
  "py_str (PTuple [PStr ''repos/octocat/hello/issues'']) =
     ''('' @ [CHR 0x27] @ ''repos/octocat/hello/issues'' @ [CHR 0x27] @ '',)''"
  by code_simp

lemma demo_prepare_create:
  assumes "fs w ''state/c1.json'' = None"
  shows "save_prepare demo_card w =
     Inr (None, PTuple [PStr ''repos/octocat/hello/issues''],
          PDict [(''title'', PStr ''Fix login''), (''body'', PStr ''Steps'')])"
proof -
  have "state demo_card w = Inr PNone"
    using demo_card_fields(2) assms by (rule state_file_missing)
  from save_prepare_create [OF this demo_card_fields(3,4)] show ?thesis
    by (simp add: demo_card_fields(1) demo_args_def)
qed

lemma demo_create_contains:
  "py_contains ''://'' (PTuple [PStr ''repos/octocat/hello/issues'']) = Inr False"
  by simp

lemma demo_create_request:
  "request_of (PTuple [PStr ''repos/octocat/hello/issues'']) demo_args
     (PDict [(''title'', PStr ''Fix login''), (''body'', PStr ''Steps'')]) None False =
   create_request"
  unfolding request_of_def create_request_def
  by (simp add: demo_target demo_args_def del: py_str.simps py_repr.simps)

lemma demo_create_run:
  assumes "fs w ''state/c1.json'' = None"
  shows "save (always resp_created) demo_card w =
     (Inr True, w\<lparr>fs := (fs w)(''state/c1.json'' \<mapsto> Json_File demo_saved),
                  sent := sent w @ [create_request]\<rparr>)"
proof -
  have k: "ok resp_created" by (simp add: resp_created_def)
  have reply: "gh_request (always resp_created) (PTuple [PStr ''repos/octocat/hello/issues''])
      demo_args (PDict [(''title'', PStr ''Fix login''), (''body'', PStr ''Steps'')]) None w =
      (Inr (Response resp_created), w\<lparr>sent := sent w @ [create_request]\<rparr>)"
    by (simp add: gh_request_unfold [OF demo_create_contains] demo_create_request always_def k)
  have store: "save_store demo_card
      (PDict [(''title'', PStr ''Fix login''), (''body'', PStr ''Steps'')])
      resp_created (w\<lparr>sent := sent w @ [create_request]\<rparr>) =
      (Inr True, w\<lparr>fs := (fs w)(''state/c1.json'' \<mapsto> Json_File demo_saved),
                  sent := sent w @ [create_request]\<rparr>)"
    by (simp add: save_store_def resp_created_def demo_card_fields(2) demo_saved_def)
  show ?thesis
    by (simp add: save_def demo_prepare_create [OF assms] demo_card_fields(1) reply k store)
qed

lemma demo_create_empty:
  "save (always resp_created) demo_card empty_world = (Inr True, world_after_create)"
  using demo_create_run [of empty_world]
  by (simp add: empty_world_def world_after_create_def)

lemma show_int_404: "show_int 404 = ''404''"
  by code_simp

lemma show_int_502: "show_int 502 = ''502''"
  by code_simp

lemma demo_user_request: "request_of (PStr ''user'') demo_args PNone None False = user_request"
  by (simp add: request_of_def demo_args_def user_request_def)

lemma demo_user_reply:
  assumes "\<not> ok r"
  shows "gh_request (always r) (PStr ''user'') demo_args PNone None w =
     (case (case json r of
              None \<Rightarrow> Inr (http_error_message r)
            | Some d \<Rightarrow> py_get d ''message'' (http_error_message r)) of
        Inl e \<Rightarrow> (Inl e, w\<lparr>sent := sent w @ [user_request]\<rparr>)
      | Inr message \<Rightarrow>
          (Inr Failure,
           w\<lparr>sent := sent w @ [user_request],
             log := log w @ [\<lparr>logger = ''github'', level = ERROR, msg = message,
                               msg_args = []\<rparr>]\<rparr>))"
  using gh_request_not_ok [OF user_path, of "always r" w demo_args PNone None r,
      unfolded demo_user_request] assms
  by (simp add: always_def)

lemma demo_load: "main_load demo_args world_with_export = (Inr demo_export, world_after_load)"
  by (simp add: main_load_def read_json_def world_with_export_def world_after_load_def
        demo_export_def demo_args_def log_call_def)

text \<open>
  The two messages of error responses: the \<open>message\<close> of the body, and the text made
  of status code and reason when the body does not decode or has no \<open>message\<close>.
\<close>

lemma demo_bad_credentials:
  "gh_request (always resp_bad_credentials) (PStr ''user'') demo_args PNone None empty_world =
     (Inr Failure,
      \<lparr>fs = Map.empty, sent = [user_request],
        log = [\<lparr>logger = ''github'', level = ERROR, msg = PStr ''Bad credentials'',
                 msg_args = []\<rparr>]\<rparr>)"
proof -
  have k: "\<not> ok resp_bad_credentials" by (simp add: resp_bad_credentials_def)
  have j: "json resp_bad_credentials = Some (PDict [(''message'', PStr ''Bad credentials'')])"
    by (simp add: resp_bad_credentials_def)
  show ?thesis by (simp add: demo_user_reply [OF k] j empty_world_def)
qed

lemma demo_bad_gateway:
  "gh_request (always resp_bad_gateway) (PStr ''user'') demo_args PNone None empty_world =
     (Inr Failure,
      \<lparr>fs = Map.empty, sent = [user_request],
        log = [\<lparr>logger = ''github'', level = ERROR, msg = PStr ''HTTP error 502: Bad Gateway'',
                 msg_args = []\<rparr>]\<rparr>)"
proof -
  have k: "\<not> ok resp_bad_gateway" by (simp add: resp_bad_gateway_def)
  have j: "json resp_bad_gateway = None" by (simp add: resp_bad_gateway_def)
  have m: "http_error_message resp_bad_gateway = PStr ''HTTP error 502: Bad Gateway''"
    by (simp add: http_error_message_def resp_bad_gateway_def show_int_502)
  show ?thesis by (simp add: demo_user_reply [OF k] j m empty_world_def)
qed

lemma demo_not_found:
  "gh_request (always resp_not_found) (PStr ''user'') demo_args PNone None empty_world =
     (Inr Failure,
      \<lparr>fs = Map.empty, sent = [user_request],
        log = [\<lparr>logger = ''github'', level = ERROR, msg = PStr ''HTTP error 404: Not Found'',
                 msg_args = []\<rparr>]\<rparr>)"
proof -
  have k: "\<not> ok resp_not_found" by (simp add: resp_not_found_def)
  have j: "json resp_not_found =
      Some (PDict [(''documentation_url'', PStr ''https://developer.github.com/v3'')])"
    by (simp add: resp_not_found_def)
  have m: "http_error_message resp_not_found = PStr ''HTTP error 404: Not Found''"
    by (simp add: http_error_message_def resp_not_found_def show_int_404)
  show ?thesis by (simp add: demo_user_reply [OF k] j m empty_world_def)
qed

section \<open>The claims\<close>

text \<open>
  C1. A card with no state file: \<open>save\<close> sends one \<open>POST\<close> and, the response being ok,
  writes the state file with the \<open>url\<close> of the response body. The target of the
  request, though, is not the issues collection of the repository under the API root:
  \<open>req_url\<close> is a one-element tuple, \<open>'://' not in path\<close> is a membership test that
  holds, and \<open>'%s/%s'\<close> formats the tuple, parentheses, quotes and comma included. (The
  same holds of every such card, see \<open>save_create_request\<close>.)
\<close>

theorem save_create_target_demo:
  "fs empty_world ''state/c1.json'' = None \<and>
   save (always resp_created) demo_card empty_world = (Inr True, world_after_create) \<and>
   fs world_after_create ''state/c1.json'' = Some (Json_File demo_saved) \<and>
   sent world_after_create = [create_request] \<and>
   http_method create_request = POST \<and>
   url create_request =
     PStr (''https://api.github.com/('' @ [CHR 0x27] @ ''repos/octocat/hello/issues''
            @ [CHR 0x27] @ '',)'') \<and>
   url create_request \<noteq> PStr ''https://api.github.com/repos/octocat/hello/issues''"
proof -
  have "fs empty_world ''state/c1.json'' = None"
    by (simp add: empty_world_def)
  moreover have "fs world_after_create ''state/c1.json'' = Some (Json_File demo_saved)"
    and "sent world_after_create = [create_request]"
    by (simp_all add: world_after_create_def)
  moreover have "http_method create_request = POST"
    and "url create_request =
      PStr (''https://api.github.com/('' @ [CHR 0x27] @ ''repos/octocat/hello/issues''
             @ [CHR 0x27] @ '',)'')"
    and "url create_request \<noteq> PStr ''https://api.github.com/repos/octocat/hello/issues''"
    by (simp_all add: create_request_def)
  ultimately show ?thesis
    using demo_create_empty by blast
qed

text \<open>
  C2. A card whose state file holds an object with a \<open>url\<close> that is a string with
  \<open>://\<close> in it: \<open>save\<close> sends exactly one request, a \<open>PATCH\<close> whose target is that
  string as stored (it is not joined to the API root), with the credentials of the
  command line and, as payload, the stored object with \<open>title\<close> set to the card's
  \<open>name\<close> and \<open>body\<close> to its \<open>desc\<close>.
\<close>

theorem save_update_patches_stored_url:
  assumes "state_file c = Some p"
      and "fs w p = Some (Json_File (PDict st))"
      and "map_of st ''url'' = Some (PStr u)"
      and "str_contains ''://'' u"
      and "py_getitem (card_data c) ''name'' = Inr nm"
      and "py_getitem (card_data c) ''desc'' = Inr ds"
  shows "sent (snd (save srv c w)) =
           sent w @ [\<lparr>http_method = PATCH, url = PStr u,
                      auth = (github_user (args c), github_password (args c)),
                      data = Dumped (PDict (AList.update ''body'' ds
                                             (AList.update ''title'' nm st)))\<rparr>] \<and>
         map_of (AList.update ''body'' ds (AList.update ''title'' nm st)) ''title'' = Some nm \<and>
         map_of (AList.update ''body'' ds (AList.update ''title'' nm st)) ''body'' = Some ds \<and>
         u \<noteq> githubroot (args c) @ ''/'' @ u"
proof -
  let ?st = "PDict (AList.update ''body'' ds (AList.update ''title'' nm st))"
  have prep: "save_prepare c w = Inr (Some PATCH, PStr u, ?st)"
    using assms by (simp add: save_prepare_update state_file_found)
  have has: "py_contains ''://'' (PStr u) = Inr True"
    using assms(4) by simp
  have tr: "truthy ?st"
    by (simp add: update_not_Nil)
  have "sent (snd (save srv c w)) =
      sent (snd (gh_request srv (PStr u) (args c) ?st (Some PATCH) w))"
    by (rule save_sent [OF prep])
  also have "\<dots> = sent w @ [request_of (PStr u) (args c) ?st (Some PATCH) True]"
    by (rule gh_request_sent [OF has])
  also have "request_of (PStr u) (args c) ?st (Some PATCH) True =
      \<lparr>http_method = PATCH, url = PStr u,
       auth = (github_user (args c), github_password (args c)), data = Dumped ?st\<rparr>"
    using tr by (simp add: request_of_def)
  finally have one: "sent (snd (save srv c w)) =
      sent w @ [\<lparr>http_method = PATCH, url = PStr u,
                 auth = (github_user (args c), github_password (args c)), data = Dumped ?st\<rparr>]" .
  have "length u \<noteq> length (githubroot (args c) @ ''/'' @ u)" by simp
  then have "u \<noteq> githubroot (args c) @ ''/'' @ u" by metis
  with one show ?thesis by (simp add: update_conv')
qed

theorem save_update_patches_stored_url_witness:
  "state_file demo_card = Some ''state/c1.json'' \<and>
   fs world_with_state ''state/c1.json'' = Some (Json_File demo_state) \<and>
   py_getitem demo_state ''url'' =
     Inr (PStr ''https://api.github.com/repos/octocat/hello/issues/1'') \<and>
   str_contains ''://'' ''https://api.github.com/repos/octocat/hello/issues/1'' \<and>
   sent (snd (save (always resp_created) demo_card world_with_state)) = [patch_request]"
proof -
  have h2: "fs world_with_state ''state/c1.json'' = Some (Json_File (PDict
      [(''url'', PStr ''https://api.github.com/repos/octocat/hello/issues/1''),
       (''title'', PStr ''Old title''), (''body'', PStr ''Old text'')]))"
    by (simp add: world_with_state_def demo_state_def)
  have h3: "map_of [(''url'', PStr ''https://api.github.com/repos/octocat/hello/issues/1''),
       (''title'', PStr ''Old title''), (''body'', PStr ''Old text'')] ''url'' =
       Some (PStr ''https://api.github.com/repos/octocat/hello/issues/1'')"
    by simp
  have h4: "str_contains ''://'' ''https://api.github.com/repos/octocat/hello/issues/1''"
    by simp
  show ?thesis
    using save_update_patches_stored_url [OF demo_card_fields(2) h2 h3 h4 demo_card_fields(3,4),
        of "always resp_created"] h2 h4
    by (simp add: demo_card_fields demo_state_def patch_request_def demo_args_def
          world_with_state_def)
qed

text \<open>
  C3, amended. When the call of \<open>gh_request\<close> that \<open>save\<close> makes returns the failure
  value, \<open>save\<close> returns \<open>False\<close>; when the call ends in a transport error, \<open>save\<close>
  does not return: the exception of the HTTP library passes through \<open>gh_request\<close> and
  \<open>save\<close>, neither of which has a handler for it. In both cases the disk after
  \<open>save\<close> is the disk before it: no state file is created or overwritten.
\<close>

theorem save_failed_request_keeps_state:
  assumes "save_prepare c w = Inr (req_fn, req_url, st)"
      and "gh_request srv req_url (args c) st req_fn w = (res, w1)"
      and "res = Inr Failure \<or> res = Inl RequestException"
  shows "fst (save srv c w) = (if res = Inr Failure then Inr False else Inl RequestException) \<and>
         fs (snd (save srv c w)) = fs w"
proof -
  have w1: "fs w1 = fs w"
    using gh_request_fs [of srv req_url "args c" st req_fn w] assms(2) by simp
  from assms(3) show ?thesis
  proof
    assume "res = Inr Failure"
    with assms(1,2) have "save srv c w = (Inr False, w1)"
      by (simp add: save_def)
    with w1 \<open>res = Inr Failure\<close> show ?thesis by simp
  next
    assume "res = Inl RequestException"
    with assms(1,2) have "save srv c w = (Inl RequestException, w1)"
      by (simp add: save_def)
    with w1 \<open>res = Inl RequestException\<close> show ?thesis by simp
  qed
qed

theorem save_failed_request_keeps_state_witness:
  "save_prepare demo_card empty_world =
     Inr (None, PTuple [PStr ''repos/octocat/hello/issues''],
          PDict [(''title'', PStr ''Fix login''), (''body'', PStr ''Steps'')]) \<and>
   fst (gh_request (always resp_bad_credentials) (PTuple [PStr ''repos/octocat/hello/issues''])
          demo_args (PDict [(''title'', PStr ''Fix login''), (''body'', PStr ''Steps'')]) None
          empty_world) = Inr Failure \<and>
   fst (save (always resp_bad_credentials) demo_card empty_world) = Inr False \<and>
   fs (snd (save (always resp_bad_credentials) demo_card empty_world)) = Map.empty \<and>
   fst (gh_request unreachable (PTuple [PStr ''repos/octocat/hello/issues''])
          demo_args (PDict [(''title'', PStr ''Fix login''), (''body'', PStr ''Steps'')]) None
          empty_world) = Inl RequestException \<and>
   fst (save unreachable demo_card empty_world) = Inl RequestException \<and>
   fs (snd (save unreachable demo_card empty_world)) = Map.empty"
proof -
  have h1: "save_prepare demo_card empty_world =
     Inr (None, PTuple [PStr ''repos/octocat/hello/issues''],
          PDict [(''title'', PStr ''Fix login''), (''body'', PStr ''Steps'')])"
    by (rule demo_prepare_create) (simp add: empty_world_def)
  let ?g = "gh_request (always resp_bad_credentials)
          (PTuple [PStr ''repos/octocat/hello/issues''])
          (args demo_card) (PDict [(''title'', PStr ''Fix login''), (''body'', PStr ''Steps'')])
          None empty_world"
  let ?t = "gh_request unreachable
          (PTuple [PStr ''repos/octocat/hello/issues''])
          (args demo_card) (PDict [(''title'', PStr ''Fix login''), (''body'', PStr ''Steps'')])
          None empty_world"
  have f: "fst ?g = Inr Failure"
    by (simp add: gh_request_unfold [OF demo_create_contains] always_def
          resp_bad_credentials_def)
  have t: "fst ?t = Inl RequestException"
    by (simp add: gh_request_unfold [OF demo_create_contains] unreachable_def)
  have g2: "?g = (fst ?g, snd ?g)" and t2: "?t = (fst ?t, snd ?t)"
    by simp_all
  have g3: "fst ?g = Inr Failure \<or> fst ?g = Inl RequestException"
    and t3: "fst ?t = Inr Failure \<or> fst ?t = Inl RequestException"
    using f t by simp_all
  show ?thesis
    using save_failed_request_keeps_state [OF h1 g2 g3]
      save_failed_request_keeps_state [OF h1 t2 t3] h1 f t
    by (simp add: demo_card_fields(1) empty_world_def)
qed

text \<open>
  The claim as first stated, that \<open>save\<close> returns \<open>False\<close> whenever its request fails,
  does not hold of a request that fails in transport: \<open>save\<close> raises.
\<close>

theorem save_transport_error_counterexample:
  "save_prepare demo_card empty_world =
     Inr (None, PTuple [PStr ''repos/octocat/hello/issues''],
          PDict [(''title'', PStr ''Fix login''), (''body'', PStr ''Steps'')]) \<and>
   gh_request unreachable (PTuple [PStr ''repos/octocat/hello/issues''])
     demo_args (PDict [(''title'', PStr ''Fix login''), (''body'', PStr ''Steps'')]) None
     empty_world =
     (Inl RequestException, \<lparr>fs = Map.empty, sent = [create_request], log = []\<rparr>) \<and>
   save unreachable demo_card empty_world =
     (Inl RequestException, \<lparr>fs = Map.empty, sent = [create_request], log = []\<rparr>) \<and>
   fst (save unreachable demo_card empty_world) \<noteq> Inr False"
proof -
  have h1: "save_prepare demo_card empty_world =
     Inr (None, PTuple [PStr ''repos/octocat/hello/issues''],
          PDict [(''title'', PStr ''Fix login''), (''body'', PStr ''Steps'')])"
    by (rule demo_prepare_create) (simp add: empty_world_def)
  have g: "gh_request unreachable (PTuple [PStr ''repos/octocat/hello/issues''])
     demo_args (PDict [(''title'', PStr ''Fix login''), (''body'', PStr ''Steps'')]) None
     empty_world =
     (Inl RequestException, \<lparr>fs = Map.empty, sent = [create_request], log = []\<rparr>)"
    by (simp add: gh_request_unfold [OF demo_create_contains] demo_create_request
          unreachable_def empty_world_def)
  have s: "save unreachable demo_card empty_world =
     (Inl RequestException, \<lparr>fs = Map.empty, sent = [create_request], log = []\<rparr>)"
    by (simp add: save_def h1 demo_card_fields(1) g)
  from h1 g s show ?thesis by simp
qed



text \<open>
  C5. After a \<open>save\<close> that returned \<open>True\<close>, the card's \<open>state\<close> (its state file read
  back) is a document whose \<open>title\<close> is the card's \<open>name\<close> and whose \<open>body\<close> is the
  card's \<open>desc\<close>. The file holds the document \<open>json.dump\<close> was given; that
  \<open>json.load\<close> returns it is the library's part of the round trip.
\<close>

theorem save_state_roundtrip:
  assumes "save srv c w = (Inr True, w')"
  shows "\<exists>st nm ds. state c w' = Inr st \<and>
           py_getitem (card_data c) ''name'' = Inr nm \<and> py_getitem st ''title'' = Inr nm \<and>
           py_getitem (card_data c) ''desc'' = Inr ds \<and> py_getitem st ''body'' = Inr ds"
proof -
  from save_TrueD [OF assms] obtain req_fn req_url st r w1
    where prep: "save_prepare c w = Inr (req_fn, req_url, st)"
      and store: "save_store c st r w1 = (Inr True, w')"
    by blast
  from save_prepare_InrD [OF prep] obtain kvs nm ds
    where st: "st = PDict kvs"
      and t: "map_of kvs ''title'' = Some nm" and b: "map_of kvs ''body'' = Some ds"
      and nm: "py_getitem (card_data c) ''name'' = Inr nm"
      and ds: "py_getitem (card_data c) ''desc'' = Inr ds"
    by blast
  from save_store_TrueD [OF store] obtain d u st3 p
    where set3: "py_setitem st ''url'' u = Inr st3"
      and p: "state_file c = Some p"
      and w': "w' = w1\<lparr>fs := (fs w1)(p \<mapsto> Json_File st3)\<rparr>"
    by blast
  from set3 st have st3: "st3 = PDict (AList.update ''url'' u kvs)" by simp
  have "state c w' = Inr st3"
    using p w' by (simp add: state_file_found)
  moreover have "py_getitem st3 ''title'' = Inr nm" "py_getitem st3 ''body'' = Inr ds"
    using st3 t b by (simp_all add: update_conv')
  ultimately show ?thesis using nm ds by blast
qed

theorem save_state_roundtrip_witness:
  "save (always resp_created) demo_card empty_world = (Inr True, world_after_create) \<and>
   state demo_card world_after_create = Inr demo_saved \<and>
   py_getitem (card_data demo_card) ''name'' = Inr (PStr ''Fix login'') \<and>
   py_getitem demo_saved ''title'' = Inr (PStr ''Fix login'') \<and>
   py_getitem (card_data demo_card) ''desc'' = Inr (PStr ''Steps'') \<and>
   py_getitem demo_saved ''body'' = Inr (PStr ''Steps'')"
proof -
  have "state demo_card world_after_create = Inr demo_saved"
    by (rule state_file_found [OF demo_card_fields(2)]) (simp add: world_after_create_def)
  with save_state_roundtrip [OF demo_create_empty] show ?thesis
    by (auto simp: demo_create_empty demo_card_fields)
qed

text \<open>
  C6. A response that is not ok and whose body decodes to a list: \<open>data.get\<close> raises
  \<open>AttributeError\<close>, which \<open>except ValueError\<close> does not catch. \<open>gh_request\<close> logs
  nothing and returns nothing, the failure value included. (For a body that does not
  decode or decodes to an object the claim holds, see \<open>gh_request_error_logged\<close>,
  \<open>demo_bad_credentials\<close> and \<open>demo_bad_gateway\<close>.)
\<close>

theorem gh_request_list_body_raises:
  "\<not> ok resp_list_body \<and>
   json resp_list_body = Some (PList []) \<and>
   gh_request (always resp_list_body) (PStr ''user'') demo_args PNone None empty_world =
     (Inl AttributeError, \<lparr>fs = Map.empty, sent = [user_request], log = []\<rparr>) \<and>
   fst (gh_request (always resp_list_body) (PStr ''user'') demo_args PNone None empty_world)
     \<noteq> Inr Failure"
proof -
  have k: "\<not> ok resp_list_body" by (simp add: resp_list_body_def)
  have j: "json resp_list_body = Some (PList [])" by (simp add: resp_list_body_def)
  show ?thesis
    by (simp add: demo_user_reply [OF k] j k empty_world_def)
qed



text \<open>
  C8. Without \<open>--statedir\<close> the card's \<open>state_file\<close> is \<open>None\<close>, and \<open>save\<close> begins by
  reading \<open>self.state\<close>, which opens \<open>self.state_file\<close>: \<open>AttributeError\<close>, not caught.
  \<open>save\<close> sends no request, writes nothing and returns no boolean.
\<close>

theorem save_without_statedir_raises:
  "Card cd (a\<lparr>statedir := None\<rparr>) =
     Inr \<lparr>card_data = cd, state_file = None, args = a\<lparr>statedir := None\<rparr>\<rparr> \<and>
   save srv \<lparr>card_data = cd, state_file = None, args = a\<lparr>statedir := None\<rparr>\<rparr> w =
     (Inl AttributeError, w)"
  by (simp add: Card_def save_def save_prepare_no_state_file)

text \<open>
  C9. When the export has been loaded, the \<open>user\<close> request has succeeded with an object
  as body, and the cards are a sequence that starts with a card \<open>cd\<close>: the run ends
  in the world that \<open>save\<close> of \<open>cd\<close> leaves, and it returns normally whether \<open>save\<close>
  returned \<open>True\<close> or \<open>False\<close>. After the \<open>user\<close> request at most one request is sent,
  the one of that \<open>save\<close>; the cards after the first have no part in the result.
\<close>

theorem main_first_card_only:
  assumes "main_load a w = (Inr trello_data, w0)"
      and "gh_request srv (PStr ''user'') a PNone None w0 = (Inr (Response r), w1)"
      and "json r = Some d"
      and "py_get d ''name'' (PStr ''unknown user name'') = Inr n"
      and "py_getitem trello_data ''cards'' = Inr cards"
      and "py_iter cards = Inr (cd # rest)"
      and "py_getitem cd ''name'' = Inr nm"
      and "Card cd a = Inr c"
      and "w3 = log_call ''cards import'' DEBUG (PStr ''Card %s'') [nm]
                  (log_call ''root'' INFO (PStr ''Importing as GitHub user %s'') [n] w1)"
  shows "snd (main srv a w) = snd (save srv c w3) \<and>
         fst (main srv a w) =
           (case fst (save srv c w3) of Inl e \<Rightarrow> Inl e | Inr saved \<Rightarrow> Inr ()) \<and>
         (sent (snd (main srv a w)) = sent w3 \<or>
          (\<exists>rq. sent (snd (main srv a w)) = sent w3 @ [rq]))"
proof -
  have ok: "ok r" using assms(2) by (rule gh_request_Response_ok)
  have m: "main srv a w =
      (case save srv c w3 of (Inl e, w4) \<Rightarrow> (Inl e, w4) | (Inr saved, w4) \<Rightarrow> (Inr (), w4))"
    using assms ok by (simp add: main_def Let_def)
  then have "snd (main srv a w) = snd (save srv c w3)"
    and "fst (main srv a w) =
           (case fst (save srv c w3) of Inl e \<Rightarrow> Inl e | Inr saved \<Rightarrow> Inr ())"
    by (simp_all split: prod.splits sum.splits)
  then show ?thesis using save_sent_cases [of srv c w3] by simp
qed

theorem main_first_card_only_witness:
  "main_load demo_args world_with_export = (Inr demo_export, world_after_load) \<and>
   py_iter (PList [demo_card_data,
      PDict [(''id'', PStr ''c2''), (''name'', PStr ''Add search''), (''desc'', PStr ''Later'')]]) =
     Inr [demo_card_data,
      PDict [(''id'', PStr ''c2''), (''name'', PStr ''Add search''), (''desc'', PStr ''Later'')]] \<and>
   Card demo_card_data demo_args = Inr demo_card \<and>
   fst (main (always resp_created) demo_args world_with_export) = Inr () \<and>
   sent (snd (main (always resp_created) demo_args world_with_export)) =
     [user_request, create_request]"
proof -
  have k: "ok resp_created" by (simp add: resp_created_def)
  have h2: "gh_request (always resp_created) (PStr ''user'') demo_args PNone None
      world_after_load =
      (Inr (Response resp_created), world_after_load\<lparr>sent := [user_request]\<rparr>)"
    by (simp add: gh_request_unfold [OF user_path] demo_user_request always_def k
          world_after_load_def)
  have h3: "json resp_created =
      Some (PDict [(''url'', PStr ''https://api.github.com/repos/octocat/hello/issues/1'')])"
    by (simp add: resp_created_def)
  have h4: "py_get (PDict [(''url'', PStr ''https://api.github.com/repos/octocat/hello/issues/1'')])
      ''name'' (PStr ''unknown user name'') = Inr (PStr ''unknown user name'')"
    by simp
  have h5: "py_getitem demo_export ''cards'' = Inr (PList [demo_card_data,
      PDict [(''id'', PStr ''c2''), (''name'', PStr ''Add search''), (''desc'', PStr ''Later'')]])"
    by (simp add: demo_export_def)
  have h6: "py_iter (PList [demo_card_data,
      PDict [(''id'', PStr ''c2''), (''name'', PStr ''Add search''), (''desc'', PStr ''Later'')]]) =
     Inr (demo_card_data #
      [PDict [(''id'', PStr ''c2''), (''name'', PStr ''Add search''), (''desc'', PStr ''Later'')]])"
    by simp
  have h7: "py_getitem demo_card_data ''name'' = Inr (PStr ''Fix login'')"
    by (simp add: demo_card_data_def)
  have h9: "world_before_first_card =
      log_call ''cards import'' DEBUG (PStr ''Card %s'') [PStr ''Fix login'']
        (log_call ''root'' INFO (PStr ''Importing as GitHub user %s'')
           [PStr ''unknown user name''] (world_after_load\<lparr>sent := [user_request]\<rparr>))"
    by (simp add: world_before_first_card_def log_call_def)
  have run: "save (always resp_created) demo_card world_before_first_card =
      (Inr True, world_before_first_card
         \<lparr>fs := (fs world_before_first_card)(''state/c1.json'' \<mapsto> Json_File demo_saved),
          sent := sent world_before_first_card @ [create_request]\<rparr>)"
    by (rule demo_create_run) (simp add: world_before_first_card_def world_after_load_def)
  from main_first_card_only [OF demo_load h2 h3 h4 h5 h6 h7 demo_Card h9]
  have "snd (main (always resp_created) demo_args world_with_export) =
          snd (save (always resp_created) demo_card world_before_first_card)"
    and "fst (main (always resp_created) demo_args world_with_export) =
          (case fst (save (always resp_created) demo_card world_before_first_card) of
             Inl e \<Rightarrow> Inl e | Inr saved \<Rightarrow> Inr ())"
    by simp_all
  with run demo_load h6 demo_Card show ?thesis
    by (simp add: world_before_first_card_def)
qed

text \<open>
  C10. A response that is not ok and whose body decodes to a string: the body decodes
  and has no \<open>message\<close>, yet \<open>data.get\<close> raises \<open>AttributeError\<close> and the text made of
  status code and reason is not logged. (For a body that decodes to an object with no
  \<open>message\<close> key the claim holds, see \<open>gh_request_error_logged\<close> and \<open>demo_not_found\<close>.)
\<close>

theorem gh_request_text_body_raises:
  "\<not> ok resp_text_body \<and>
   json resp_text_body = Some (PStr ''down for maintenance'') \<and>
   gh_request (always resp_text_body) (PStr ''user'') demo_args PNone None empty_world =
     (Inl AttributeError, \<lparr>fs = Map.empty, sent = [user_request], log = []\<rparr>)"
proof -
  have k: "\<not> ok resp_text_body" by (simp add: resp_text_body_def)
  have j: "json resp_text_body = Some (PStr ''down for maintenance'')"
    by (simp add: resp_text_body_def)
  show ?thesis
    by (simp add: demo_user_reply [OF k] j k empty_world_def)
qed

end
